theory Spec2Isabelle
  imports Complex_Main "HOL-Library.AList"
begin

section \<open>Shared game configuration\<close>

text \<open>
  The constants of \<^verbatim>\<open>shared/gameConfig.js\<close> that the room manager reads. JavaScript
  numbers that hold coordinates, speeds and seconds are modelled as \<^typ>\<open>real\<close>
  (idealised arithmetic, no rounding); millisecond timestamps of \<^verbatim>\<open>Date.now()\<close> and
  scores are \<^typ>\<open>int\<close>; sizes are \<^typ>\<open>nat\<close>.
\<close>

definition ARENA_WIDTH :: real where "ARENA_WIDTH = 30"
definition ARENA_DEPTH :: real where "ARENA_DEPTH = 20"
definition PLAYER_RADIUS :: real where "PLAYER_RADIUS = 0.6"
definition PLAYER_SPAWN_OFFSET :: real where "PLAYER_SPAWN_OFFSET = 8"
definition PROJECTILE_SPEED :: real where "PROJECTILE_SPEED = 16"
definition PROJECTILE_RADIUS :: real where "PROJECTILE_RADIUS = 0.25"
definition PROJECTILE_LIFETIME :: int where "PROJECTILE_LIFETIME = 3000"
definition FIRE_COOLDOWN :: int where "FIRE_COOLDOWN = 350"
definition MAX_PLAYERS :: nat where "MAX_PLAYERS = 2"
definition WIN_SCORE :: int where "WIN_SCORE = 10"
definition MATCH_DURATION :: real where "MATCH_DURATION = 180"
definition TICK_RATE :: real where "TICK_RATE = 20"

section \<open>Untrusted JavaScript values\<close>

text \<open>
  The fields of an inbound message are arbitrary JSON values. \<open>JOther\<close> stands for every
  value whose \<^verbatim>\<open>typeof\<close> is not \<^verbatim>\<open>'number'\<close> (undefined, strings, objects, ...);
  the three special numbers are kept apart from the finite ones.
\<close>

datatype jsval = JNum real | JNaN | JPosInf | JNegInf | JOther

fun typeofNumber :: "jsval \<Rightarrow> bool" where
  "typeofNumber JOther = False"
| "typeofNumber _ = True"

text \<open>\<^verbatim>\<open>isFinite\<close> on a number-typed argument. The source only evaluates it after the
  \<^verbatim>\<open>typeof\<close> tests of the same disjunction have passed.\<close>

fun isFinite :: "jsval \<Rightarrow> bool" where
  "isFinite (JNum _) = True"
| "isFinite _ = False"

fun num :: "jsval \<Rightarrow> real" where
  "num (JNum r) = r"
| "num _ = 0"

section \<open>Entity model\<close>

datatype phase = waiting | countdown | playing | ended

record player =
  p_id :: string
  p_roomId :: string
  characterId :: string
  p_x :: real
  p_z :: real
  rotation :: real
  score :: int
  ws :: nat
  lastHeartbeat :: int
  lastFireTime :: int

record projectile =
  j_id :: string
  ownerId :: string
  j_x :: real
  j_z :: real
  vx :: real
  vz :: real
  createdAt :: int

text \<open>
  A JavaScript \<^verbatim>\<open>Map\<close> iterates in insertion order, \<^verbatim>\<open>set\<close> on a present key replaces
  the value in place and \<^verbatim>\<open>set\<close> on a new key appends: an association list with
  \<^const>\<open>AList.update\<close>, \<^const>\<open>AList.delete\<close> and \<^const>\<open>map_of\<close>. \<^verbatim>\<open>size\<close> is the length.
  Timer handles are opaque numbers.
\<close>

record room =
  r_id :: string
  players :: "(string \<times> player) list"
  projectiles :: "(string \<times> projectile) list"
  state :: phase
  matchTimer :: "nat option"
  countdownTimer :: "nat option"
  startTime :: "int option"
  timeRemaining :: real

text \<open>
  The manager owns the map of rooms. \<open>wsTags\<close> holds what \<^verbatim>\<open>addPlayer\<close> writes onto the
  connection object (\<^verbatim>\<open>ws._playerId\<close>, \<^verbatim>\<open>ws._roomId\<close>), keyed by the connection.
\<close>

record manager =
  rooms :: "(string \<times> room) list"
  wsTags :: "(nat \<times> string \<times> string) list"

record hit =
  projectileId :: string
  shooterId :: string
  targetId :: string
  h_x :: real
  h_z :: real

record playerResult =
  pr_id :: string
  pr_characterId :: string
  pr_score :: int

record matchResult =
  mr_players :: "playerResult list"
  winnerId :: "string option"
  isTie :: bool
  reason :: string

section \<open>Room manager\<close>

definition newRoom :: "string \<Rightarrow> room" where
  "newRoom roomId =
     \<lparr> r_id = roomId, players = [], projectiles = [], state = waiting,
       matchTimer = None, countdownTimer = None, startTime = None,
       timeRemaining = MATCH_DURATION \<rparr>"

definition getRoom :: "manager \<Rightarrow> string \<Rightarrow> room \<times> manager" where
  "getRoom m roomId =
     (case map_of (rooms m) roomId of
        None \<Rightarrow> (newRoom roomId, m\<lparr>rooms := AList.update roomId (newRoom roomId) (rooms m)\<rparr>)
      | Some room \<Rightarrow> (room, m))"

text \<open>Rooms are objects mutated in place; the model writes the changed room back.\<close>

definition putRoom :: "manager \<Rightarrow> string \<Rightarrow> room \<Rightarrow> manager" where
  "putRoom m roomId room = m\<lparr>rooms := AList.update roomId room (rooms m)\<rparr>"

text \<open>\<open>playerId\<close> is the fresh \<^verbatim>\<open>uuidv4().slice(0, 8)\<close>, \<open>now\<close> is \<^verbatim>\<open>Date.now()\<close>.\<close>

definition addPlayer ::
  "manager \<Rightarrow> string \<Rightarrow> nat \<Rightarrow> string \<Rightarrow> int \<Rightarrow> player option \<times> manager" where
  "addPlayer m roomId sock playerId now =
     (let (room, m1) = getRoom m roomId in
      if length (players room) \<ge> MAX_PLAYERS then (None, m1)
      else
        let playerIndex = length (players room);
            characterKey = (if playerIndex = 0 then ''cupid_prime'' else ''dark_cupid'');
            spawnX = (if playerIndex = 0 then - PLAYER_SPAWN_OFFSET else PLAYER_SPAWN_OFFSET);
            player = \<lparr> p_id = playerId, p_roomId = roomId, characterId = characterKey,
                       p_x = spawnX, p_z = 0,
                       rotation = (if playerIndex = 0 then 0 else pi),
                       score = 0, ws = sock, lastHeartbeat = now, lastFireTime = 0 \<rparr>;
            m2 = putRoom m1 roomId (room\<lparr>players := AList.update playerId player (players room)\<rparr>)
        in (Some player, m2\<lparr>wsTags := AList.update sock (playerId, roomId) (wsTags m2)\<rparr>))"

definition stopMatchRoom :: "room \<Rightarrow> room" where
  "stopMatchRoom room =
     (let room1 = (case matchTimer room of None \<Rightarrow> room | Some _ \<Rightarrow> room\<lparr>matchTimer := None\<rparr>)
      in (case countdownTimer room1 of None \<Rightarrow> room1 | Some _ \<Rightarrow> room1\<lparr>countdownTimer := None\<rparr>))"

definition stopMatch :: "manager \<Rightarrow> string \<Rightarrow> manager" where
  "stopMatch m roomId =
     (case map_of (rooms m) roomId of
        None \<Rightarrow> m
      | Some room \<Rightarrow> putRoom m roomId (stopMatchRoom room))"

text \<open>\<^verbatim>\<open>this.stopMatch(roomId)\<close> inside \<^verbatim>\<open>removePlayer\<close> looks the same room object up
  again; here it acts on the local value.\<close>

definition removePlayer :: "manager \<Rightarrow> string \<Rightarrow> string \<Rightarrow> manager" where
  "removePlayer m roomId playerId =
     (case map_of (rooms m) roomId of
        None \<Rightarrow> m
      | Some room \<Rightarrow>
          let room1 = room\<lparr>players := AList.delete playerId (players room)\<rparr> in
          if length (players room1) = 0
          then (let m1 = putRoom m roomId (stopMatchRoom room1)
                in m1\<lparr>rooms := AList.delete roomId (rooms m1)\<rparr>)
          else if state room1 = playing \<or> state room1 = countdown
          then putRoom m roomId ((stopMatchRoom room1)\<lparr>state := waiting, projectiles := []\<rparr>)
          else putRoom m roomId room1)"

definition updatePlayerPosition ::
  "manager \<Rightarrow> string \<Rightarrow> string \<Rightarrow> jsval \<Rightarrow> jsval \<Rightarrow> jsval \<Rightarrow> manager" where
  "updatePlayerPosition m roomId playerId x z rot =
     (case map_of (rooms m) roomId of
        None \<Rightarrow> m
      | Some room \<Rightarrow>
         (case map_of (players room) playerId of
            None \<Rightarrow> m
          | Some player \<Rightarrow>
             if \<not> typeofNumber x \<or> \<not> typeofNumber z \<or> \<not> typeofNumber rot \<or>
                \<not> isFinite x \<or> \<not> isFinite z \<or> \<not> isFinite rot
             then m
             else
               let hw = ARENA_WIDTH / 2 - PLAYER_RADIUS;
                   hd = ARENA_DEPTH / 2 - PLAYER_RADIUS;
                   player1 = player\<lparr> p_x := max (- hw) (min hw (num x)),
                                      p_z := max (- hd) (min hd (num z)),
                                      rotation := num rot \<rparr>
               in putRoom m roomId
                    (room\<lparr>players := AList.update playerId player1 (players room)\<rparr>)))"

text \<open>\<open>now\<close> is \<^verbatim>\<open>Date.now()\<close>, \<open>projId\<close> the fresh \<^verbatim>\<open>uuidv4().slice(0, 8)\<close>. The result
  \<open>None\<close> is the source's \<^verbatim>\<open>null\<close>.\<close>

definition fireProjectile ::
  "manager \<Rightarrow> string \<Rightarrow> string \<Rightarrow> jsval \<Rightarrow> jsval \<Rightarrow> int \<Rightarrow> string
     \<Rightarrow> projectile option \<times> manager" where
  "fireProjectile m roomId playerId dirX dirZ now projId =
     (case map_of (rooms m) roomId of
        None \<Rightarrow> (None, m)
      | Some room \<Rightarrow>
         if state room \<noteq> playing then (None, m)
         else
          (case map_of (players room) playerId of
             None \<Rightarrow> (None, m)
           | Some player \<Rightarrow>
              if \<not> typeofNumber dirX \<or> \<not> typeofNumber dirZ \<or>
                 \<not> isFinite dirX \<or> \<not> isFinite dirZ
              then (None, m)
              else if now - lastFireTime player < FIRE_COOLDOWN then (None, m)
              else
                let player1 = player\<lparr>lastFireTime := now\<rparr>;
                    room1 = room\<lparr>players := AList.update playerId player1 (players room)\<rparr>;
                    len = sqrt (num dirX * num dirX + num dirZ * num dirZ)
                in if len < 0.01 then (None, putRoom m roomId room1)
                   else
                     let nx = num dirX / len;
                         nz = num dirZ / len;
                         proj = \<lparr> j_id = projId, ownerId = playerId,
                                  j_x = p_x player1 + nx * 1.0,
                                  j_z = p_z player1 + nz * 1.0,
                                  vx = nx * PROJECTILE_SPEED,
                                  vz = nz * PROJECTILE_SPEED,
                                  createdAt = now \<rparr>
                     in (Some proj,
                         putRoom m roomId
                           (room1\<lparr>projectiles := AList.update projId proj (projectiles room1)\<rparr>))))"

subsection \<open>The simulation step\<close>

text \<open>
  The inner loop of \<^verbatim>\<open>tick\<close> over \<^verbatim>\<open>room.players\<close> for one projectile that is in
  bounds and alive: \<^verbatim>\<open>continue\<close> on the owner, \<^verbatim>\<open>break\<close> on the first hit. The state
  threaded through is the room, \<^verbatim>\<open>hits\<close> and \<^verbatim>\<open>expiredProjectiles\<close>.
\<close>

fun hitLoop ::
  "string \<Rightarrow> projectile \<Rightarrow> (string \<times> player) list
     \<Rightarrow> room \<times> hit list \<times> string list \<Rightarrow> room \<times> hit list \<times> string list" where
  "hitLoop projId proj [] acc = acc"
| "hitLoop projId proj ((pid, p) # ps) (room, hits, expiredProjectiles) =
     (if pid = ownerId proj then hitLoop projId proj ps (room, hits, expiredProjectiles)
      else
        let dx = j_x proj - p_x p;
            dz = j_z proj - p_z p;
            dist = sqrt (dx * dx + dz * dz);
            hitDist = PLAYER_RADIUS + PROJECTILE_RADIUS
        in if dist < hitDist then
             let shooter = map_of (players room) (ownerId proj);
                 room1 = (case shooter of
                            None \<Rightarrow> room
                          | Some s \<Rightarrow>
                              room\<lparr>players :=
                                AList.update (ownerId proj) (s\<lparr>score := score s + 1\<rparr>)
                                  (players room)\<rparr>);
                 hits1 = hits @ [\<lparr> projectileId = projId, shooterId = ownerId proj,
                                   targetId = pid, h_x = j_x proj, h_z = j_z proj \<rparr>];
                 expired1 = expiredProjectiles @ [projId];
                 room2 = (case shooter of
                            None \<Rightarrow> room1
                          | Some s \<Rightarrow>
                              if score s + 1 \<ge> WIN_SCORE then room1\<lparr>state := ended\<rparr>
                              else room1)
             in (room2, hits1, expired1)
           else hitLoop projId proj ps (room, hits, expiredProjectiles))"

text \<open>The body of the outer loop for one entry of \<^verbatim>\<open>room.projectiles\<close>.\<close>

definition tickProjectile ::
  "int \<Rightarrow> string \<times> projectile \<Rightarrow> room \<times> hit list \<times> string list
     \<Rightarrow> room \<times> hit list \<times> string list" where
  "tickProjectile now entry acc =
     (case (entry, acc) of ((projId, proj0), (room, hits, expiredProjectiles)) \<Rightarrow>
        let dt = 1 / TICK_RATE;
            proj = proj0\<lparr> j_x := j_x proj0 + vx proj0 * dt, j_z := j_z proj0 + vz proj0 * dt \<rparr>;
            room1 = room\<lparr>projectiles := AList.update projId proj (projectiles room)\<rparr>;
            hw = ARENA_WIDTH / 2;
            hd = ARENA_DEPTH / 2
        in if \<bar>j_x proj\<bar> > hw \<or> \<bar>j_z proj\<bar> > hd
           then (room1, hits, expiredProjectiles @ [projId])
           else if now - createdAt proj > PROJECTILE_LIFETIME
           then (room1, hits, expiredProjectiles @ [projId])
           else hitLoop projId proj (players room1) (room1, hits, expiredProjectiles))"

text \<open>The timer update that ends \<^verbatim>\<open>tick\<close>. \<^verbatim>\<open>if (room.startTime)\<close> is false for
  \<^verbatim>\<open>null\<close> and for the timestamp 0.\<close>

definition tickTimer :: "int \<Rightarrow> room \<Rightarrow> room" where
  "tickTimer now room =
     (case startTime room of
        None \<Rightarrow> room
      | Some st \<Rightarrow>
          if st = 0 then room
          else
            let elapsed = real_of_int (now - st) / 1000;
                room1 = room\<lparr>timeRemaining := max 0 (MATCH_DURATION - elapsed)\<rparr>
            in if timeRemaining room1 \<le> 0 \<and> state room1 = playing
               then room1\<lparr>state := ended\<rparr> else room1)"

definition tick :: "manager \<Rightarrow> string \<Rightarrow> int \<Rightarrow> hit list \<times> manager" where
  "tick m roomId now =
     (case map_of (rooms m) roomId of
        None \<Rightarrow> ([], m)
      | Some room \<Rightarrow>
          if state room \<noteq> playing then ([], m)
          else
            (case fold (tickProjectile now) (projectiles room) (room, [], []) of
               (room1, hits, expiredProjectiles) \<Rightarrow>
                 let room2 = room1\<lparr>projectiles :=
                               fold AList.delete expiredProjectiles (projectiles room1)\<rparr>
                 in (hits, putRoom m roomId (tickTimer now room2))))"

subsection \<open>Match lifecycle\<close>

text \<open>The loop of \<^verbatim>\<open>startCountdown\<close> that resets scores and positions; \<open>i\<close> is the
  loop counter.\<close>

fun resetPlayers :: "nat \<Rightarrow> (string \<times> player) list \<Rightarrow> (string \<times> player) list" where
  "resetPlayers i [] = []"
| "resetPlayers i ((pid, p) # ps) =
     (pid, p\<lparr> score := 0,
              p_x := (if i = 0 then - PLAYER_SPAWN_OFFSET else PLAYER_SPAWN_OFFSET),
              p_z := 0,
              rotation := (if i = 0 then 0 else pi) \<rparr>) # resetPlayers (i + 1) ps"

text \<open>\<open>timer\<close> is the handle that \<^verbatim>\<open>setInterval\<close> returns. The broadcasts go to the
  caller's \<^verbatim>\<open>broadcastFn\<close> and leave the manager untouched.\<close>

definition startCountdown :: "manager \<Rightarrow> string \<Rightarrow> nat \<Rightarrow> manager" where
  "startCountdown m roomId timer =
     (case map_of (rooms m) roomId of
        None \<Rightarrow> m
      | Some room \<Rightarrow>
          putRoom m roomId
            (room\<lparr> state := countdown, projectiles := [],
                   players := resetPlayers 0 (players room),
                   countdownTimer := Some timer \<rparr>))"

definition startMatch :: "manager \<Rightarrow> string \<Rightarrow> int \<Rightarrow> manager" where
  "startMatch m roomId now =
     (case map_of (rooms m) roomId of
        None \<Rightarrow> m
      | Some room \<Rightarrow>
          putRoom m roomId
            (room\<lparr> state := playing, startTime := Some now,
                   timeRemaining := MATCH_DURATION \<rparr>))"

text \<open>The last firing of the countdown interval, which runs only while the interval is
  pending: the callback clears the interval and starts the match.\<close>

definition countdownExpired :: "manager \<Rightarrow> string \<Rightarrow> int \<Rightarrow> manager" where
  "countdownExpired m roomId now =
     (case map_of (rooms m) roomId of
        None \<Rightarrow> m
      | Some room \<Rightarrow>
         (case countdownTimer room of
            None \<Rightarrow> m
          | Some _ \<Rightarrow> startMatch (putRoom m roomId (room\<lparr>countdownTimer := None\<rparr>)) roomId now))"

text \<open>The loop of \<^verbatim>\<open>getMatchResults\<close>; the accumulator is
  \<^verbatim>\<open>(players, winnerId, highScore)\<close>.\<close>

fun resultLoop ::
  "(string \<times> player) list \<Rightarrow> playerResult list \<times> string option \<times> int
     \<Rightarrow> playerResult list \<times> string option \<times> int" where
  "resultLoop [] acc = acc"
| "resultLoop ((pid, p) # ps) (res, winner, highScore) =
     (let res1 = res @ [\<lparr> pr_id = p_id p, pr_characterId = characterId p, pr_score = score p \<rparr>]
      in if score p > highScore then resultLoop ps (res1, Some (p_id p), score p)
         else resultLoop ps (res1, winner, highScore))"

definition getMatchResults :: "manager \<Rightarrow> string \<Rightarrow> matchResult option" where
  "getMatchResults m roomId =
     (case map_of (rooms m) roomId of
        None \<Rightarrow> None
      | Some room \<Rightarrow>
         (case resultLoop (players room) ([], None, - 1) of
            (res, winner, highScore) \<Rightarrow>
              let scores = map pr_score res;
                  tie = (length scores = 2 \<and> scores ! 0 = scores ! 1)
              in Some \<lparr> mr_players = res,
                         winnerId = (if tie then None else winner),
                         isTie = tie,
                         reason = (if timeRemaining room \<le> 0 then ''timeout'' else ''score'') \<rparr>))"

definition handleRematch :: "manager \<Rightarrow> string \<Rightarrow> bool \<times> manager" where
  "handleRematch m roomId =
     (case map_of (rooms m) roomId of
        None \<Rightarrow> (False, m)
      | Some room \<Rightarrow>
          if state room \<noteq> ended then (False, m)
          else (True, putRoom m roomId (room\<lparr>projectiles := [], state := waiting\<rparr>)))"

definition heartbeat :: "manager \<Rightarrow> string \<Rightarrow> string \<Rightarrow> int \<Rightarrow> manager" where
  "heartbeat m roomId playerId now =
     (case map_of (rooms m) roomId of
        None \<Rightarrow> m
      | Some room \<Rightarrow>
         (case map_of (players room) playerId of
            None \<Rightarrow> m
          | Some player \<Rightarrow>
              putRoom m roomId
                (room\<lparr>players :=
                   AList.update playerId (player\<lparr>lastHeartbeat := now\<rparr>) (players room)\<rparr>)))"

subsection \<open>Sequences of calls\<close>

text \<open>One constructor for each call the server makes on the room manager, with the values
  the call reads from its environment (fresh identifiers, the clock, timer handles).\<close>

datatype call =
    GetRoom string
  | AddPlayer string nat string int
  | RemovePlayer string string
  | UpdatePlayerPosition string string jsval jsval jsval
  | FireProjectile string string jsval jsval int string
  | Tick string int
  | StartCountdown string nat
  | CountdownExpired string int
  | StartMatch string int
  | StopMatch string
  | HandleRematch string
  | Heartbeat string string int

fun applyCall :: "manager \<Rightarrow> call \<Rightarrow> manager" where
  "applyCall m (GetRoom rid) = snd (getRoom m rid)"
| "applyCall m (AddPlayer rid sock pid now) = snd (addPlayer m rid sock pid now)"
| "applyCall m (RemovePlayer rid pid) = removePlayer m rid pid"
| "applyCall m (UpdatePlayerPosition rid pid x z rot) = updatePlayerPosition m rid pid x z rot"
| "applyCall m (FireProjectile rid pid dx dz now jid) = snd (fireProjectile m rid pid dx dz now jid)"
| "applyCall m (Tick rid now) = snd (tick m rid now)"
| "applyCall m (StartCountdown rid timer) = startCountdown m rid timer"
| "applyCall m (CountdownExpired rid now) = countdownExpired m rid now"
| "applyCall m (StartMatch rid now) = startMatch m rid now"
| "applyCall m (StopMatch rid) = stopMatch m rid"
| "applyCall m (HandleRematch rid) = snd (handleRematch m rid)"
| "applyCall m (Heartbeat rid pid now) = heartbeat m rid pid now"

definition runCalls :: "manager \<Rightarrow> call list \<Rightarrow> manager" where
  "runCalls m cs = foldl applyCall m cs"

text \<open>The manager as its constructor leaves it.\<close>

definition emptyManager :: manager where
  "emptyManager = \<lparr> rooms = [], wsTags = [] \<rparr>"

subsection \<open>Vocabulary for statements about the step\<close>

text \<open>Names for expressions that \<^verbatim>\<open>tick\<close> computes inline: the projectile after the
  integration of one step, the negation of the two expiry tests, the distance test, and
  the hit record pushed on a collision.\<close>

definition advanced :: "projectile \<Rightarrow> projectile" where
  "advanced proj = proj\<lparr> j_x := j_x proj + vx proj * (1 / TICK_RATE),
                          j_z := j_z proj + vz proj * (1 / TICK_RATE) \<rparr>"

definition inFlight :: "int \<Rightarrow> projectile \<Rightarrow> bool" where
  "inFlight now proj =
     (\<bar>j_x proj\<bar> \<le> ARENA_WIDTH / 2 \<and> \<bar>j_z proj\<bar> \<le> ARENA_DEPTH / 2
      \<and> now - createdAt proj \<le> PROJECTILE_LIFETIME)"

definition collides :: "projectile \<Rightarrow> player \<Rightarrow> bool" where
  "collides proj p =
     (sqrt ((j_x proj - p_x p) * (j_x proj - p_x p) + (j_z proj - p_z p) * (j_z proj - p_z p))
        < PLAYER_RADIUS + PROJECTILE_RADIUS)"

definition hitRecord :: "string \<Rightarrow> projectile \<Rightarrow> string \<Rightarrow> hit" where
  "hitRecord projId proj pid =
     \<lparr> projectileId = projId, shooterId = ownerId proj, targetId = pid,
       h_x = j_x proj, h_z = j_z proj \<rparr>"

text \<open>A projectile (after its integration) survives a step when neither expiry test
  fires and no player other than its owner is within the hit distance. \<open>positions\<close> keeps
  of the players what the distance test reads.\<close>

definition survives :: "int \<Rightarrow> (string \<times> player) list \<Rightarrow> projectile \<Rightarrow> bool" where
  "survives now ps proj =
     (inFlight now proj \<and> \<not> list_ex (\<lambda>e. fst e \<noteq> ownerId proj \<and> collides proj (snd e)) ps)"

definition positions :: "(string \<times> player) list \<Rightarrow> (string \<times> real \<times> real) list" where
  "positions ps = map (\<lambda>e. (fst e, p_x (snd e), p_z (snd e))) ps"

subsection \<open>The capacity invariant\<close>

text \<open>A room is within capacity when it holds at most \<^verbatim>\<open>MAX_PLAYERS\<close> entries under
  distinct keys (so that the length of the list is the \<^verbatim>\<open>size\<close> of the \<^verbatim>\<open>Map\<close>).\<close>

definition roomOk :: "room \<Rightarrow> bool" where
  "roomOk r = (length (players r) \<le> MAX_PLAYERS \<and> distinct (map fst (players r)))"

definition capacityOk :: "manager \<Rightarrow> bool" where
  "capacityOk m = list_all (\<lambda>e. roomOk (snd e)) (rooms m)"

section \<open>Server: the room identifier of a connection\<close>

text \<open>
  \<^verbatim>\<open>url.parse(req.url, true).query.room\<close> is absent, one string, or a list of strings when
  the parameter is repeated. \<^verbatim>\<open>String\<close> of a list joins its elements with commas; a string
  is a list of UTF-16 code units, which \<^verbatim>\<open>slice\<close> counts.
\<close>

datatype queryval = QAbsent | QStr string | QArr "string list"

fun joinComma :: "string list \<Rightarrow> string" where
  "joinComma [] = []"
| "joinComma [s] = s"
| "joinComma (s # t # ss) = s @ '','' @ joinComma (t # ss)"

definition connectionRoomId :: "queryval \<Rightarrow> string" where
  "connectionRoomId q =
     (let rawRoom = (case q of
                       QAbsent \<Rightarrow> ''default''
                     | QStr s \<Rightarrow> (if s = [] then ''default'' else s)
                     | QArr ss \<Rightarrow> joinComma ss)
      in take 64 rawRoom)"

text \<open>The allowlist in the words of the audit notes and of the specification: letters,
  digits, underscore and hyphen.\<close>

definition allowlisted :: "string \<Rightarrow> bool" where
  "allowlisted s =
     list_all (\<lambda>c. c \<in> set (''abcdefghijklmnopqrstuvwxyz'' @ ''ABCDEFGHIJKLMNOPQRSTUVWXYZ''
                               @ ''0123456789'' @ ''_-'')) s"

section \<open>Example states\<close>

text \<open>A two-player room \<open>''r''\<close> in mid-match: \<open>A\<close> has nine points and stands at the left
  spawn, \<open>B\<close> at the right one.\<close>

definition playerA :: player where
  "playerA = \<lparr> p_id = ''A'', p_roomId = ''r'', characterId = ''cupid_prime'',
               p_x = - 8, p_z = 0, rotation = 0, score = 9, ws = 1,
               lastHeartbeat = 0, lastFireTime = 0 \<rparr>"

definition playerB :: player where
  "playerB = \<lparr> p_id = ''B'', p_roomId = ''r'', characterId = ''dark_cupid'',
               p_x = 8, p_z = 0, rotation = pi, score = 0, ws = 2,
               lastHeartbeat = 0, lastFireTime = 0 \<rparr>"

definition duelRoom :: room where
  "duelRoom = \<lparr> r_id = ''r'', players = [(''A'', playerA), (''B'', playerB)],
                projectiles = [], state = playing, matchTimer = None,
                countdownTimer = None, startTime = Some 1000, timeRemaining = 120 \<rparr>"

text \<open>A shot of \<open>A\<close> that reaches \<open>B\<close> on the next step, and one that is still far away.\<close>

definition shotNear :: "int \<Rightarrow> projectile" where
  "shotNear t = \<lparr> j_id = ''p'', ownerId = ''A'', j_x = 7.2, j_z = 0, vx = 16, vz = 0,
                  createdAt = t \<rparr>"

definition shotFar :: "int \<Rightarrow> projectile" where
  "shotFar t = \<lparr> j_id = ''q'', ownerId = ''A'', j_x = 0, j_z = 0, vx = 16, vz = 0,
                 createdAt = t \<rparr>"

text \<open>The room one step before the clock runs out (the previous step was at 180950).\<close>

definition lastStepManager :: manager where
  "lastStepManager =
     \<lparr> rooms = [(''r'', duelRoom\<lparr> projectiles := [(''p'', shotNear 180900)],
                                  timeRemaining := 0.05 \<rparr>)],
       wsTags = [] \<rparr>"

definition duelManager :: manager where
  "duelManager = \<lparr> rooms = [(''r'', duelRoom)], wsTags = [] \<rparr>"

text \<open>A playing room that \<open>A\<close> is no longer part of, with a shot of \<open>A\<close> still stored.\<close>

definition orphanRoom :: room where
  "orphanRoom = duelRoom\<lparr> players := [(''B'', playerB)], projectiles := [(''p'', shotNear 1000)] \<rparr>"

definition orphanManager :: manager where
  "orphanManager = \<lparr> rooms = [(''r'', orphanRoom)], wsTags = [] \<rparr>"

text \<open>The duel after \<open>A\<close> has fired along the \<open>x\<close> axis at time 1000.\<close>

definition firstShot :: projectile where
  "firstShot = \<lparr> j_id = ''p0'', ownerId = ''A'', j_x = - 7, j_z = 0, vx = 16, vz = 0,
                 createdAt = 1000 \<rparr>"

definition firedManager :: manager where
  "firedManager =
     \<lparr> rooms = [(''r'', duelRoom\<lparr> players := [(''A'', playerA\<lparr>lastFireTime := 1000\<rparr>),
                                               (''B'', playerB)],
                                  projectiles := [(''p0'', firstShot)] \<rparr>)],
       wsTags = [] \<rparr>"

text \<open>The duel with two shots of \<open>A\<close> in the air, and the same room after the step at
  61000 on which the near one hits \<open>B\<close>.\<close>

definition twoShotRoom :: room where
  "twoShotRoom = duelRoom\<lparr>projectiles := [(''p'', shotNear 60000), (''q'', shotFar 60400)]\<rparr>"

definition twoShotManager :: manager where
  "twoShotManager = \<lparr> rooms = [(''r'', twoShotRoom)], wsTags = [] \<rparr>"

definition wonRoom :: room where
  "wonRoom = duelRoom\<lparr> players := [(''A'', playerA\<lparr>score := 10\<rparr>), (''B'', playerB)],
                        projectiles := [(''q'', advanced (shotFar 60400))],
                        state := ended \<rparr>"

definition wonManager :: manager where
  "wonManager = \<lparr> rooms = [(''r'', wonRoom)], wsTags = [] \<rparr>"

section \<open>Auxiliary facts\<close>

lemmas config_defs =
  ARENA_WIDTH_def ARENA_DEPTH_def PLAYER_RADIUS_def PLAYER_SPAWN_OFFSET_def
  PROJECTILE_SPEED_def PROJECTILE_RADIUS_def PROJECTILE_LIFETIME_def FIRE_COOLDOWN_def
  MAX_PLAYERS_def WIN_SCORE_def MATCH_DURATION_def TICK_RATE_def

lemma sqrt_less_iff_sq: "0 < c \<Longrightarrow> (sqrt x < c) = (x < c\<^sup>2)"
  by (metis real_sqrt_less_iff real_sqrt_abs abs_of_pos)

lemma collides_sq:
  "collides proj p =
     ((j_x proj - p_x p) * (j_x proj - p_x p) + (j_z proj - p_z p) * (j_z proj - p_z p)
        < (PLAYER_RADIUS + PROJECTILE_RADIUS)\<^sup>2)"
  unfolding collides_def
  by (rule sqrt_less_iff_sq) (simp add: config_defs)

section \<open>Fire intents\<close>

text \<open>The rejections that precede the assignment to \<^verbatim>\<open>lastFireTime\<close> change nothing, and
  no rejection touches the projectiles.\<close>

lemma fireProjectile_early_rejections:
  assumes "map_of (rooms m) roomId = None
           \<or> (\<exists>room. map_of (rooms m) roomId = Some room \<and>
                 (state room \<noteq> playing
                  \<or> map_of (players room) playerId = None
                  \<or> \<not> (typeofNumber dirX \<and> isFinite dirX \<and> typeofNumber dirZ \<and> isFinite dirZ)
                  \<or> (\<exists>player. map_of (players room) playerId = Some player
                         \<and> now - lastFireTime player < FIRE_COOLDOWN)))"
  shows "fireProjectile m roomId playerId dirX dirZ now projId = (None, m)"
  using assms by (auto simp add: fireProjectile_def split: option.splits)

lemma fireProjectile_rejected_projectiles:
  assumes "map_of (rooms m) roomId = Some room"
      and "fireProjectile m roomId playerId dirX dirZ now projId = (None, m')"
  shows "\<exists>room'. map_of (rooms m') roomId = Some room' \<and> projectiles room' = projectiles room"
  using assms
  by (auto simp add: fireProjectile_def putRoom_def update_conv' Let_def
      split: option.splits if_splits)

text \<open>
  Claim C2 (a rejected fire intent changes nothing; \<^verbatim>\<open>lastFireTime\<close> moves only when a
  projectile is created). The code departs from it on the degenerate direction: at time
  1000 player \<open>A\<close> of the playing room fires with direction \<open>(0, 0)\<close>. The call returns
  \<^verbatim>\<open>null\<close> and stores no projectile, yet \<open>A\<close>'s \<^verbatim>\<open>lastFireTime\<close> has become 1000, because
  the assignment precedes the length test. The other four rejections return before it.
\<close>

theorem fireProjectile_degenerate_consumes_cooldown:
  "fireProjectile duelManager ''r'' ''A'' (JNum 0) (JNum 0) 1000 ''p'' =
     (None,
      \<lparr> rooms = [(''r'', duelRoom\<lparr>players :=
                  [(''A'', playerA\<lparr>lastFireTime := 1000\<rparr>), (''B'', playerB)]\<rparr>)],
        wsTags = [] \<rparr>)
   \<and> snd (fireProjectile duelManager ''r'' ''A'' (JNum 0) (JNum 0) 1000 ''p'') \<noteq> duelManager"
  by (simp add: fireProjectile_def putRoom_def duelManager_def duelRoom_def playerA_def playerB_def config_defs)

theorem fireProjectile_degenerate_consumes_cooldown_witness:
  "fst (fireProjectile duelManager ''r'' ''A'' (JNum 0) (JNum 0) 1000 ''p'') = None"
  using fireProjectile_degenerate_consumes_cooldown by simp

section \<open>The reported reason of a match end\<close>

text \<open>
  Claim C3 (a step on which a score reaches \<^verbatim>\<open>WIN_SCORE\<close> ends the match on that step
  with reason \<open>score\<close>). The code departs from it when the winning hit lands on the step
  on which the clock also reaches zero: \<open>A\<close> has nine points, its shot reaches \<open>B\<close> on the
  step at time 181000, and the match started at 1000. The step sets the phase to
  \<open>ended\<close> through the score test (the timer test is skipped, the phase is no longer
  \<open>playing\<close>), \<open>A\<close> has ten points, and \<^verbatim>\<open>getMatchResults\<close> reports \<open>timeout\<close>.
\<close>

theorem win_on_last_step_reports_timeout:
  "tick lastStepManager ''r'' 181000 =
     ([\<lparr> projectileId = ''p'', shooterId = ''A'', targetId = ''B'', h_x = 8, h_z = 0 \<rparr>],
      \<lparr> rooms = [(''r'', duelRoom\<lparr> players := [(''A'', playerA\<lparr>score := 10\<rparr>), (''B'', playerB)],
                                   state := ended, timeRemaining := 0 \<rparr>)],
        wsTags = [] \<rparr>)
   \<and> map_option reason (getMatchResults (snd (tick lastStepManager ''r'' 181000)) ''r'')
       = Some ''timeout''"
  by (simp add: tick_def tickProjectile_def tickTimer_def getMatchResults_def putRoom_def
      lastStepManager_def duelRoom_def playerA_def playerB_def shotNear_def config_defs sqrt_less_iff_sq power2_eq_square)

theorem win_on_last_step_reports_timeout_witness:
  "fst (tick lastStepManager ''r'' 181000) =
     [\<lparr> projectileId = ''p'', shooterId = ''A'', targetId = ''B'', h_x = 8, h_z = 0 \<rparr>]"
  using win_on_last_step_reports_timeout by simp

section \<open>Room identifiers\<close>

text \<open>What the derivation does guarantee: the length cap, and the default for an absent or
  empty parameter.\<close>

lemma connectionRoomId_length: "length (connectionRoomId q) \<le> 64"
  by (simp add: connectionRoomId_def)

lemma connectionRoomId_default:
  "connectionRoomId QAbsent = ''default''" "connectionRoomId (QStr []) = ''default''"
  by (simp_all add: connectionRoomId_def)

text \<open>
  Claim C5 (the room identifier used as registry key is capped in length and restricted to
  letters, digits, underscore and hyphen, with a default when absent or invalid). The code
  caps the length at 64 and falls back to \<open>default\<close> for an absent or empty parameter, but
  applies no allowlist: the parameter \<open>a!b\<close> becomes the key \<open>a!b\<close>.
\<close>

theorem connectionRoomId_keeps_disallowed_character:
  "connectionRoomId (QStr ''a!b'') = ''a!b'' \<and> \<not> allowlisted (connectionRoomId (QStr ''a!b''))"
  by (simp add: connectionRoomId_def allowlisted_def)

section \<open>Move intents\<close>

lemma finite_number_iff: "(typeofNumber v \<and> isFinite v) = (\<exists>a. v = JNum a)"
  by (cases v) auto

text \<open>
  Claim C7. For a move intent on a known room and a known player: when one of \<open>x\<close>, \<open>z\<close>,
  \<open>rotation\<close> is not a number or not finite, nothing changes at all; otherwise the stored
  \<open>x\<close> lies within \<open>ARENA_WIDTH / 2 - PLAYER_RADIUS\<close> of the centre, \<open>z\<close> likewise with
  \<open>ARENA_DEPTH\<close>, whatever the magnitude of the input, the rotation is stored as given,
  and no other field of the player changes.
\<close>

theorem updatePlayerPosition_validated:
  assumes "map_of (rooms m) roomId = Some room"
      and "map_of (players room) playerId = Some player"
  shows "(\<not> (typeofNumber x \<and> isFinite x \<and> typeofNumber z \<and> isFinite z
              \<and> typeofNumber rot \<and> isFinite rot)
           \<longrightarrow> updatePlayerPosition m roomId playerId x z rot = m)
       \<and> (typeofNumber x \<and> isFinite x \<and> typeofNumber z \<and> isFinite z
              \<and> typeofNumber rot \<and> isFinite rot \<longrightarrow>
             (\<exists>room' player'.
                map_of (rooms (updatePlayerPosition m roomId playerId x z rot)) roomId = Some room'
              \<and> map_of (players room') playerId = Some player'
              \<and> - (ARENA_WIDTH / 2) + PLAYER_RADIUS \<le> p_x player'
              \<and> p_x player' \<le> ARENA_WIDTH / 2 - PLAYER_RADIUS
              \<and> - (ARENA_DEPTH / 2) + PLAYER_RADIUS \<le> p_z player'
              \<and> p_z player' \<le> ARENA_DEPTH / 2 - PLAYER_RADIUS
              \<and> rotation player' = num rot
              \<and> player' = player\<lparr>p_x := p_x player', p_z := p_z player', rotation := num rot\<rparr>))"
  using assms
  by (auto simp add: updatePlayerPosition_def putRoom_def update_conv' config_defs Let_def)

theorem updatePlayerPosition_validated_witness:
  "map_of (rooms duelManager) ''r'' = Some duelRoom
   \<and> map_of (players duelRoom) ''A'' = Some playerA
   \<and> updatePlayerPosition duelManager ''r'' ''A'' (JNum 3) JPosInf (JNum 0) = duelManager
   \<and> (\<exists>room' player'.
         map_of (rooms (updatePlayerPosition duelManager ''r'' ''A''
                          (JNum 1000) (JNum (- 1000)) (JNum 7))) ''r'' = Some room'
       \<and> map_of (players room') ''A'' = Some player'
       \<and> - (ARENA_WIDTH / 2) + PLAYER_RADIUS \<le> p_x player'
       \<and> p_x player' \<le> ARENA_WIDTH / 2 - PLAYER_RADIUS
       \<and> - (ARENA_DEPTH / 2) + PLAYER_RADIUS \<le> p_z player'
       \<and> p_z player' \<le> ARENA_DEPTH / 2 - PLAYER_RADIUS
       \<and> rotation player' = 7)"
proof -
  have h1: "map_of (rooms duelManager) ''r'' = Some duelRoom"
    by (simp add: duelManager_def)
  have h2: "map_of (players duelRoom) ''A'' = Some playerA"
    by (simp add: duelRoom_def)
  have rejected: "updatePlayerPosition duelManager ''r'' ''A'' (JNum 3) JPosInf (JNum 0) = duelManager"
    using updatePlayerPosition_validated [OF h1 h2, of "JNum 3" JPosInf "JNum 0"] by simp
  have accepted: "\<exists>room' player'.
         map_of (rooms (updatePlayerPosition duelManager ''r'' ''A''
                          (JNum 1000) (JNum (- 1000)) (JNum 7))) ''r'' = Some room'
       \<and> map_of (players room') ''A'' = Some player'
       \<and> - (ARENA_WIDTH / 2) + PLAYER_RADIUS \<le> p_x player'
       \<and> p_x player' \<le> ARENA_WIDTH / 2 - PLAYER_RADIUS
       \<and> - (ARENA_DEPTH / 2) + PLAYER_RADIUS \<le> p_z player'
       \<and> p_z player' \<le> ARENA_DEPTH / 2 - PLAYER_RADIUS
       \<and> rotation player' = 7"
    using updatePlayerPosition_validated [OF h1 h2, of "JNum 1000" "JNum (- 1000)" "JNum 7"]
    by simp blast
  from h1 h2 rejected accepted show ?thesis by blast
qed

section \<open>Departure\<close>

text \<open>
  Claim C8. In a room of exactly two players whose phase is \<open>countdown\<close> or \<open>playing\<close>,
  removing either player leaves the room in phase \<open>waiting\<close> with no projectiles, and the
  other player is the only entry left, with every field (score, position, rotation,
  character) as before.
\<close>

theorem removePlayer_aborts_match:
  assumes "map_of (rooms m) roomId = Some room"
      and "players room = [(pa, a), (pb, b)]"
      and "pa \<noteq> pb"
      and "state room = playing \<or> state room = countdown"
  shows "(\<exists>room'. map_of (rooms (removePlayer m roomId pa)) roomId = Some room'
            \<and> state room' = waiting \<and> projectiles room' = [] \<and> players room' = [(pb, b)])
       \<and> (\<exists>room'. map_of (rooms (removePlayer m roomId pb)) roomId = Some room'
            \<and> state room' = waiting \<and> projectiles room' = [] \<and> players room' = [(pa, a)])"
  using assms
  by (auto simp add: removePlayer_def putRoom_def update_conv' stopMatchRoom_def Let_def
      split: option.splits)

theorem removePlayer_aborts_match_witness:
  "map_of (rooms lastStepManager) ''r''
     = Some (duelRoom\<lparr>projectiles := [(''p'', shotNear 180900)], timeRemaining := 0.05\<rparr>)
   \<and> ''A'' \<noteq> ''B''
   \<and> (\<exists>room'. map_of (rooms (removePlayer lastStepManager ''r'' ''A'')) ''r'' = Some room'
          \<and> state room' = waiting \<and> projectiles room' = []
          \<and> players room' = [(''B'', playerB)])"
proof -
  have h1: "map_of (rooms lastStepManager) ''r''
     = Some (duelRoom\<lparr>projectiles := [(''p'', shotNear 180900)], timeRemaining := 0.05\<rparr>)"
    by (simp add: lastStepManager_def)
  have h2: "players (duelRoom\<lparr>projectiles := [(''p'', shotNear 180900)], timeRemaining := 0.05\<rparr>)
     = [(''A'', playerA), (''B'', playerB)]"
    by (simp add: duelRoom_def)
  have h3: "''A'' \<noteq> ''B''" by simp
  have h4: "state (duelRoom\<lparr>projectiles := [(''p'', shotNear 180900)], timeRemaining := 0.05\<rparr>) = playing
     \<or> state (duelRoom\<lparr>projectiles := [(''p'', shotNear 180900)], timeRemaining := 0.05\<rparr>) = countdown"
    by (simp add: duelRoom_def)
  from removePlayer_aborts_match [OF h1 h2 h3 h4] h1 h3 show ?thesis by blast
qed

section \<open>Role slots\<close>

text \<open>
  Claim C10. The role of a joining player follows the number of players in the room at
  the moment of the join, and nothing else: whenever the room (as \<^verbatim>\<open>getRoom\<close> returns it)
  has room left, the join succeeds and the new player has the character \<open>cupid_prime\<close>,
  \<open>x = - PLAYER_SPAWN_OFFSET\<close> and rotation \<open>0\<close> when the room holds no player, and the
  character \<open>dark_cupid\<close>, \<open>x = PLAYER_SPAWN_OFFSET\<close> and rotation \<open>pi\<close> otherwise; that
  player is stored under its identifier. Consequently, in a room that did not exist,
  after the calls join, join, remove the first joiner, join (with identifiers that do not
  collide), the two players left both have the character \<open>dark_cupid\<close>, the same spawn side
  \<open>x = PLAYER_SPAWN_OFFSET\<close> and the same rotation \<open>pi\<close>.
\<close>

theorem role_by_player_count:
  "(length (players (fst (getRoom m roomId))) < MAX_PLAYERS \<longrightarrow>
      (\<exists>player m2 room'.
          addPlayer m roomId sock playerId now = (Some player, m2)
        \<and> player =
            \<lparr> p_id = playerId, p_roomId = roomId,
              characterId = (if length (players (fst (getRoom m roomId))) = 0
                             then ''cupid_prime'' else ''dark_cupid''),
              p_x = (if length (players (fst (getRoom m roomId))) = 0
                     then - PLAYER_SPAWN_OFFSET else PLAYER_SPAWN_OFFSET),
              p_z = 0,
              rotation = (if length (players (fst (getRoom m roomId))) = 0 then 0 else pi),
              score = 0, ws = sock, lastHeartbeat = now, lastFireTime = 0 \<rparr>
        \<and> map_of (rooms m2) roomId = Some room'
        \<and> players room' = AList.update playerId player (players (fst (getRoom m roomId)))))
   \<and> (map_of (rooms m) roomId = None \<and> p1 \<noteq> p2 \<and> p2 \<noteq> p3 \<longrightarrow>
      (\<exists>room' a b.
           map_of (rooms (runCalls m [AddPlayer roomId s1 p1 t1, AddPlayer roomId s2 p2 t2,
                                      RemovePlayer roomId p1, AddPlayer roomId s3 p3 t3])) roomId
             = Some room'
         \<and> players room' = [(p2, a), (p3, b)]
         \<and> characterId a = ''dark_cupid'' \<and> characterId b = ''dark_cupid''
         \<and> p_x a = PLAYER_SPAWN_OFFSET \<and> p_x b = PLAYER_SPAWN_OFFSET
         \<and> p_z a = 0 \<and> p_z b = 0
         \<and> rotation a = pi \<and> rotation b = pi))"
proof -
  have general: "\<exists>player m2 room'.
          addPlayer m roomId sock playerId now = (Some player, m2)
        \<and> player =
            \<lparr> p_id = playerId, p_roomId = roomId,
              characterId = (if length (players (fst (getRoom m roomId))) = 0
                             then ''cupid_prime'' else ''dark_cupid''),
              p_x = (if length (players (fst (getRoom m roomId))) = 0
                     then - PLAYER_SPAWN_OFFSET else PLAYER_SPAWN_OFFSET),
              p_z = 0,
              rotation = (if length (players (fst (getRoom m roomId))) = 0 then 0 else pi),
              score = 0, ws = sock, lastHeartbeat = now, lastFireTime = 0 \<rparr>
        \<and> map_of (rooms m2) roomId = Some room'
        \<and> players room' = AList.update playerId player (players (fst (getRoom m roomId)))"
    if "length (players (fst (getRoom m roomId))) < MAX_PLAYERS"
    using that
    by (cases "map_of (rooms m) roomId")
      (simp_all add: addPlayer_def getRoom_def putRoom_def update_conv' Let_def not_le)
  have sequence: "\<exists>room' a b.
           map_of (rooms (runCalls m [AddPlayer roomId s1 p1 t1, AddPlayer roomId s2 p2 t2,
                                      RemovePlayer roomId p1, AddPlayer roomId s3 p3 t3])) roomId
             = Some room'
         \<and> players room' = [(p2, a), (p3, b)]
         \<and> characterId a = ''dark_cupid'' \<and> characterId b = ''dark_cupid''
         \<and> p_x a = PLAYER_SPAWN_OFFSET \<and> p_x b = PLAYER_SPAWN_OFFSET
         \<and> p_z a = 0 \<and> p_z b = 0
         \<and> rotation a = pi \<and> rotation b = pi"
    if "map_of (rooms m) roomId = None" "p1 \<noteq> p2" "p2 \<noteq> p3"
    using that
    by (simp add: runCalls_def addPlayer_def getRoom_def removePlayer_def putRoom_def newRoom_def
        update_conv' MAX_PLAYERS_def Let_def)
  from general sequence show ?thesis by blast
qed

theorem role_by_player_count_witness:
  "length (players (fst (getRoom emptyManager ''r''))) = 0
   \<and> (\<exists>player m2. addPlayer emptyManager ''r'' 1 ''u1'' 10 = (Some player, m2)
         \<and> characterId player = ''cupid_prime'' \<and> p_x player = - PLAYER_SPAWN_OFFSET
         \<and> p_z player = 0 \<and> rotation player = 0)
   \<and> length (players (fst (getRoom (runCalls emptyManager [AddPlayer ''r'' 1 ''u1'' 10]) ''r''))) = 1
   \<and> (\<exists>player m2. addPlayer (runCalls emptyManager [AddPlayer ''r'' 1 ''u1'' 10]) ''r'' 2 ''u2'' 20
           = (Some player, m2)
         \<and> characterId player = ''dark_cupid'' \<and> p_x player = PLAYER_SPAWN_OFFSET
         \<and> p_z player = 0 \<and> rotation player = pi)
   \<and> map_of (rooms emptyManager) ''r'' = None \<and> ''u1'' \<noteq> ''u2'' \<and> ''u2'' \<noteq> ''u3''
   \<and> (\<exists>room' a b.
         map_of (rooms (runCalls emptyManager
                   [AddPlayer ''r'' 1 ''u1'' 10, AddPlayer ''r'' 2 ''u2'' 20,
                    RemovePlayer ''r'' ''u1'', AddPlayer ''r'' 3 ''u3'' 30])) ''r''
           = Some room'
       \<and> players room' = [(''u2'', a), (''u3'', b)]
       \<and> characterId a = ''dark_cupid'' \<and> characterId b = ''dark_cupid''
       \<and> p_x a = PLAYER_SPAWN_OFFSET \<and> p_x b = PLAYER_SPAWN_OFFSET
       \<and> p_z a = 0 \<and> p_z b = 0
       \<and> rotation a = pi \<and> rotation b = pi)"
proof -
  let ?one = "runCalls emptyManager [AddPlayer ''r'' 1 ''u1'' 10]"
  have n0: "length (players (fst (getRoom emptyManager ''r''))) = 0"
    by (simp add: getRoom_def emptyManager_def newRoom_def)
  have n1: "length (players (fst (getRoom ?one ''r''))) = 1"
    by (simp add: runCalls_def addPlayer_def getRoom_def putRoom_def emptyManager_def newRoom_def
        MAX_PLAYERS_def Let_def)
  have first: "\<exists>player m2. addPlayer emptyManager ''r'' 1 ''u1'' 10 = (Some player, m2)
         \<and> characterId player = ''cupid_prime'' \<and> p_x player = - PLAYER_SPAWN_OFFSET
         \<and> p_z player = 0 \<and> rotation player = 0"
    using role_by_player_count [of emptyManager "''r''" 1 "''u1''" 10, THEN conjunct1] n0
    by (auto simp add: MAX_PLAYERS_def)
  have second: "\<exists>player m2. addPlayer ?one ''r'' 2 ''u2'' 20 = (Some player, m2)
         \<and> characterId player = ''dark_cupid'' \<and> p_x player = PLAYER_SPAWN_OFFSET
         \<and> p_z player = 0 \<and> rotation player = pi"
    using role_by_player_count [of ?one "''r''" 2 "''u2''" 20, THEN conjunct1] n1
    by (auto simp add: MAX_PLAYERS_def)
  have h1: "map_of (rooms emptyManager) ''r'' = None"
    by (simp add: emptyManager_def)
  have h2: "''u1'' \<noteq> ''u2''" and h3: "''u2'' \<noteq> ''u3''"
    by simp_all
  from role_by_player_count
         [of emptyManager "''r''" _ _ _ "''u1''" "''u2''" "''u3''" 1 10 2 20 3 30, THEN conjunct2]
    h1 h2 h3
  have third: "\<exists>room' a b.
         map_of (rooms (runCalls emptyManager
                   [AddPlayer ''r'' 1 ''u1'' 10, AddPlayer ''r'' 2 ''u2'' 20,
                    RemovePlayer ''r'' ''u1'', AddPlayer ''r'' 3 ''u3'' 30])) ''r''
           = Some room'
       \<and> players room' = [(''u2'', a), (''u3'', b)]
       \<and> characterId a = ''dark_cupid'' \<and> characterId b = ''dark_cupid''
       \<and> p_x a = PLAYER_SPAWN_OFFSET \<and> p_x b = PLAYER_SPAWN_OFFSET
       \<and> p_z a = 0 \<and> p_z b = 0
       \<and> rotation a = pi \<and> rotation b = pi"
    by blast
  from n0 first n1 second h1 h2 h3 third show ?thesis by blast
qed

section \<open>Capacity\<close>

lemma set_update_subset: "set (AList.update k v al) \<subseteq> insert (k, v) (set al)"
  by (induction al) auto

lemma set_delete_subset: "set (AList.delete k al) \<subseteq> set al"
  by (auto simp add: AList.delete_eq)

lemma keys_update_present:
  "map_of al k = Some v \<Longrightarrow> map fst (AList.update k w al) = map fst al"
  by (auto simp add: update_keys dest: map_of_SomeD intro: rev_image_eqI)

lemma length_update_le: "length (AList.update k v al) \<le> Suc (length al)"
  by (induction al) auto

lemma roomOk_keys: "map fst (players r') = map fst (players r) \<Longrightarrow> roomOk r \<Longrightarrow> roomOk r'"
  unfolding roomOk_def by (metis length_map)

lemma capacityOk_lookup: "capacityOk m \<Longrightarrow> map_of (rooms m) rid = Some r \<Longrightarrow> roomOk r"
  by (fastforce simp add: capacityOk_def list_all_iff dest: map_of_SomeD)

lemma capacityOk_putRoom: "capacityOk m \<Longrightarrow> roomOk r \<Longrightarrow> capacityOk (putRoom m rid r)"
  using set_update_subset [of rid r "rooms m"]
  by (auto simp add: capacityOk_def putRoom_def list_all_iff)

lemma capacityOk_delete:
  "capacityOk m \<Longrightarrow> capacityOk (m\<lparr>rooms := AList.delete rid (rooms m)\<rparr>)"
  using set_delete_subset [of rid "rooms m"]
  by (auto simp add: capacityOk_def list_all_iff)

lemma hitLoop_keys:
  "map fst (players (fst (hitLoop projId proj ps acc))) = map fst (players (fst acc))"
proof (induction projId proj ps acc rule: hitLoop.induct)
  case (1 projId proj acc)
  then show ?case by simp
next
  case (2 projId proj pid p ps room hits expiredProjectiles)
  then show ?case
    by (auto simp add: Let_def keys_update_present split: option.splits)
qed

lemma tickProjectile_keys:
  "map fst (players (fst (tickProjectile now e acc))) = map fst (players (fst acc))"
  by (cases e; cases acc) (auto simp add: tickProjectile_def Let_def hitLoop_keys)

lemma fold_tickProjectile_keys:
  "map fst (players (fst (fold (tickProjectile now) js acc))) = map fst (players (fst acc))"
  by (induction js arbitrary: acc) (simp_all add: tickProjectile_keys)

lemma resetPlayers_keys: "map fst (resetPlayers i ps) = map fst ps"
  by (induction i ps rule: resetPlayers.induct) simp_all

lemma tickTimer_players: "players (tickTimer now r) = players r"
  by (simp add: tickTimer_def Let_def split: option.splits)

lemma stopMatchRoom_players: "players (stopMatchRoom r) = players r"
  by (simp add: stopMatchRoom_def Let_def split: option.splits)

lemma capacityOk_getRoom: "capacityOk m \<Longrightarrow> capacityOk (snd (getRoom m rid))"
  using capacityOk_putRoom [of m "newRoom rid" rid]
  by (simp add: getRoom_def putRoom_def roomOk_def newRoom_def split: option.splits)

lemma roomOk_getRoom: "capacityOk m \<Longrightarrow> roomOk (fst (getRoom m rid))"
  by (auto simp add: getRoom_def roomOk_def newRoom_def dest: capacityOk_lookup split: option.splits)

lemma capacityOk_wsTags: "capacityOk (m\<lparr>wsTags := t\<rparr>) = capacityOk m"
  by (simp add: capacityOk_def)

lemma capacityOk_addPlayer:
  assumes "capacityOk m"
  shows "capacityOk (snd (addPlayer m rid sock pid now))"
proof -
  obtain room m1 where g: "getRoom m rid = (room, m1)" by (cases "getRoom m rid")
  from assms g have m1: "capacityOk m1" and r: "roomOk room"
    using capacityOk_getRoom [of m rid] roomOk_getRoom [of m rid] by simp_all
  show ?thesis
  proof (cases "length (players room) \<ge> MAX_PLAYERS")
    case True
    with g m1 show ?thesis by (simp add: addPlayer_def)
  next
    case False
    have "roomOk (room\<lparr>players := AList.update pid pl (players room)\<rparr>)" for pl
      using False r length_update_le [of pid pl "players room"]
      by (simp add: roomOk_def distinct_update)
    with g m1 False show ?thesis
      by (simp add: addPlayer_def Let_def capacityOk_putRoom capacityOk_wsTags)
  qed
qed

lemma capacityOk_removePlayer:
  assumes "capacityOk m"
  shows "capacityOk (removePlayer m rid pid)"
proof (cases "map_of (rooms m) rid")
  case None
  with assms show ?thesis by (simp add: removePlayer_def)
next
  case (Some room)
  with assms have r: "roomOk room" by (rule capacityOk_lookup)
  define room1 where "room1 = room\<lparr>players := AList.delete pid (players room)\<rparr>"
  have rp: "removePlayer m rid pid =
      (if length (players room1) = 0
       then (let m1 = putRoom m rid (stopMatchRoom room1)
             in m1\<lparr>rooms := AList.delete rid (rooms m1)\<rparr>)
       else if state room1 = playing \<or> state room1 = countdown
       then putRoom m rid ((stopMatchRoom room1)\<lparr>state := waiting, projectiles := []\<rparr>)
       else putRoom m rid room1)"
    using Some by (simp add: removePlayer_def room1_def Let_def)
  have r1: "roomOk room1"
    using r length_delete_le [of pid "players room"]
    by (simp add: roomOk_def distinct_delete room1_def)
  have r2: "roomOk (stopMatchRoom room1)"
    using r1 by (simp add: roomOk_def stopMatchRoom_players)
  have r3: "roomOk ((stopMatchRoom room1)\<lparr>state := waiting, projectiles := []\<rparr>)"
    using r2 by (simp add: roomOk_def)
  show ?thesis
    unfolding rp using assms r1 r2 r3
    by (simp add: Let_def capacityOk_putRoom capacityOk_delete)
qed

lemma capacityOk_same_keys:
  assumes "capacityOk m" and "map_of (rooms m) rid = Some room"
      and "map fst (players room') = map fst (players room)"
  shows "capacityOk (putRoom m rid room')"
  using assms by (blast intro: capacityOk_putRoom roomOk_keys capacityOk_lookup)

lemma capacityOk_updatePlayerPosition:
  "capacityOk m \<Longrightarrow> capacityOk (updatePlayerPosition m rid pid x z rot)"
  by (auto simp add: updatePlayerPosition_def Let_def keys_update_present
      intro!: capacityOk_same_keys split: option.splits)

lemma capacityOk_heartbeat: "capacityOk m \<Longrightarrow> capacityOk (heartbeat m rid pid now)"
  by (auto simp add: heartbeat_def keys_update_present
      intro!: capacityOk_same_keys split: option.splits)

lemma capacityOk_fireProjectile:
  "capacityOk m \<Longrightarrow> capacityOk (snd (fireProjectile m rid pid dx dz now jid))"
  by (auto simp add: fireProjectile_def Let_def keys_update_present
      intro!: capacityOk_same_keys split: option.splits)

lemma capacityOk_tick: "capacityOk m \<Longrightarrow> capacityOk (snd (tick m rid now))"
proof (cases "map_of (rooms m) rid")
  case None
  then show "capacityOk m \<Longrightarrow> ?thesis" by (simp add: tick_def)
next
  case (Some room)
  assume ok: "capacityOk m"
  obtain room1 hits ex where f:
    "fold (tickProjectile now) (projectiles room) (room, [], []) = (room1, hits, ex)"
    by (cases "fold (tickProjectile now) (projectiles room) (room, [], [])")
  have "map fst (players room1) = map fst (players room)"
    using fold_tickProjectile_keys [of now "projectiles room" "(room, [], [])"] f by simp
  then show ?thesis
    using Some ok f
    by (auto simp add: tick_def Let_def tickTimer_players intro!: capacityOk_same_keys)
qed

lemma capacityOk_startCountdown: "capacityOk m \<Longrightarrow> capacityOk (startCountdown m rid t)"
  by (auto simp add: startCountdown_def resetPlayers_keys
      intro!: capacityOk_same_keys split: option.splits)

lemma capacityOk_startMatch: "capacityOk m \<Longrightarrow> capacityOk (startMatch m rid now)"
  by (auto simp add: startMatch_def intro!: capacityOk_same_keys split: option.splits)

lemma capacityOk_stopMatch: "capacityOk m \<Longrightarrow> capacityOk (stopMatch m rid)"
  by (auto simp add: stopMatch_def stopMatchRoom_players
      intro!: capacityOk_same_keys split: option.splits)

lemma capacityOk_countdownExpired: "capacityOk m \<Longrightarrow> capacityOk (countdownExpired m rid now)"
  by (auto simp add: countdownExpired_def intro!: capacityOk_startMatch capacityOk_same_keys
      split: option.splits)

lemma capacityOk_handleRematch: "capacityOk m \<Longrightarrow> capacityOk (snd (handleRematch m rid))"
  by (auto simp add: handleRematch_def intro!: capacityOk_same_keys split: option.splits)

lemma capacityOk_applyCall: "capacityOk m \<Longrightarrow> capacityOk (applyCall m c)"
  by (cases c)
    (simp_all add: capacityOk_getRoom capacityOk_addPlayer capacityOk_removePlayer
      capacityOk_updatePlayerPosition capacityOk_fireProjectile capacityOk_tick
      capacityOk_startCountdown capacityOk_countdownExpired capacityOk_startMatch
      capacityOk_stopMatch capacityOk_handleRematch capacityOk_heartbeat)

lemma capacityOk_runCalls: "capacityOk m \<Longrightarrow> capacityOk (runCalls m cs)"
  unfolding runCalls_def by (induction cs arbitrary: m) (simp_all add: capacityOk_applyCall)

lemma capacityOk_emptyManager: "capacityOk emptyManager"
  by (simp add: capacityOk_def emptyManager_def)

text \<open>
  Claim C4. After every sequence of calls on a fresh manager, every room of the registry
  holds at most \<^verbatim>\<open>MAX_PLAYERS\<close> players (under distinct identifiers); and a join on a room
  that already holds \<^verbatim>\<open>MAX_PLAYERS\<close> players (the code tests \<open>\<ge>\<close>) returns \<^verbatim>\<open>null\<close> and
  leaves the whole manager as it was: players, projectiles, phase and timers of that room
  included.
\<close>

theorem capacity_never_exceeded:
  "(\<forall>rid room. map_of (rooms (runCalls emptyManager cs)) rid = Some room
        \<longrightarrow> length (players room) \<le> MAX_PLAYERS \<and> distinct (map fst (players room)))
   \<and> (map_of (rooms m) roomId = Some room0 \<and> MAX_PLAYERS \<le> length (players room0)
        \<longrightarrow> addPlayer m roomId sock playerId now = (None, m))"
proof -
  have "capacityOk (runCalls emptyManager cs)"
    by (rule capacityOk_runCalls [OF capacityOk_emptyManager])
  then have "\<forall>rid room. map_of (rooms (runCalls emptyManager cs)) rid = Some room
        \<longrightarrow> length (players room) \<le> MAX_PLAYERS \<and> distinct (map fst (players room))"
    using capacityOk_lookup roomOk_def by blast
  moreover have "map_of (rooms m) roomId = Some room0 \<and> MAX_PLAYERS \<le> length (players room0)
        \<longrightarrow> addPlayer m roomId sock playerId now = (None, m)"
    by (simp add: addPlayer_def getRoom_def)
  ultimately show ?thesis by blast
qed

theorem capacity_never_exceeded_witness:
  "(\<exists>room. map_of (rooms (runCalls emptyManager
                [AddPlayer ''r'' 1 ''u1'' 10, AddPlayer ''r'' 2 ''u2'' 20,
                 AddPlayer ''r'' 3 ''u3'' 30])) ''r'' = Some room
        \<and> length (players room) = 2 \<and> length (players room) \<le> MAX_PLAYERS)
   \<and> (\<exists>room0. map_of (rooms (runCalls emptyManager
                [AddPlayer ''r'' 1 ''u1'' 10, AddPlayer ''r'' 2 ''u2'' 20])) ''r'' = Some room0
        \<and> MAX_PLAYERS \<le> length (players room0))
   \<and> addPlayer (runCalls emptyManager [AddPlayer ''r'' 1 ''u1'' 10, AddPlayer ''r'' 2 ''u2'' 20])
         ''r'' 3 ''u3'' 30
       = (None, runCalls emptyManager [AddPlayer ''r'' 1 ''u1'' 10, AddPlayer ''r'' 2 ''u2'' 20])"
proof -
  let ?two = "[AddPlayer ''r'' 1 ''u1'' 10, AddPlayer ''r'' 2 ''u2'' 20]"
  let ?three = "[AddPlayer ''r'' 1 ''u1'' 10, AddPlayer ''r'' 2 ''u2'' 20, AddPlayer ''r'' 3 ''u3'' 30]"
  obtain room where a: "map_of (rooms (runCalls emptyManager ?three)) ''r'' = Some room"
      and b: "length (players room) = 2"
    by (simp add: runCalls_def emptyManager_def addPlayer_def getRoom_def putRoom_def
        newRoom_def MAX_PLAYERS_def Let_def)
  obtain room0 where c: "map_of (rooms (runCalls emptyManager ?two)) ''r'' = Some room0"
      and d: "MAX_PLAYERS \<le> length (players room0)"
    by (simp add: runCalls_def emptyManager_def addPlayer_def getRoom_def putRoom_def
        newRoom_def MAX_PLAYERS_def Let_def)
  from capacity_never_exceeded [of ?three] a have e: "length (players room) \<le> MAX_PLAYERS"
    by blast
  from capacity_never_exceeded [of "[]" "runCalls emptyManager ?two" "''r''" room0 3 "''u3''" 30] c d
  have f: "addPlayer (runCalls emptyManager ?two) ''r'' 3 ''u3'' 30
             = (None, runCalls emptyManager ?two)"
    by blast
  from a b c d e f show ?thesis by blast
qed

section \<open>Hits of a projectile whose owner has left\<close>

lemma hitLoop_ownerless:
  assumes "map_of (players room) (ownerId proj) = None"
      and "ownerId proj \<notin> fst ` set ps"
      and "\<exists>e \<in> set ps. collides proj (snd e)"
  shows "\<exists>pid p. (pid, p) \<in> set ps \<and> collides proj p
           \<and> hitLoop projId proj ps (room, hits, ex)
               = (room, hits @ [hitRecord projId proj pid], ex @ [projId])"
  using assms
proof (induction ps)
  case Nil
  then show ?case by simp
next
  case (Cons e ps)
  obtain pid p where e: "e = (pid, p)" by (cases e)
  show ?case
  proof (cases "collides proj p")
    case True
    with Cons.prems e show ?thesis
      by (auto simp add: collides_def hitRecord_def Let_def)
  next
    case False
    with Cons.prems e have "\<exists>e \<in> set ps. collides proj (snd e)" by auto
    with Cons.IH Cons.prems obtain pid' p' where
      "(pid', p') \<in> set ps" "collides proj p'"
      "hitLoop projId proj ps (room, hits, ex)
         = (room, hits @ [hitRecord projId proj pid'], ex @ [projId])"
      by auto
    with False Cons.prems e show ?thesis
      by (auto simp add: collides_def Let_def)
  qed
qed

lemma absent_key: "map_of al k = None \<Longrightarrow> k \<notin> fst ` set al"
  by (simp add: map_of_eq_None_iff)

text \<open>
  Claim C6. Take a projectile whose owner is not a key of the room's players, which after
  the integration of the step is in bounds and within its lifetime, and which is then
  closer than \<open>PLAYER_RADIUS + PROJECTILE_RADIUS\<close> to some player. Whatever the loop has
  accumulated so far, the loop body for this projectile appends one hit record (projectile,
  owner as shooter, the player hit, the projectile's position) and appends the projectile
  to the expired ones; the room changes only in the stored position of the projectile, so
  no score and no phase changes. When it is the only projectile of a playing room, the
  whole step returns that one hit record, removes the projectile, and leaves players and
  phase to the timer update alone.
\<close>

theorem ownerless_hit:
  assumes "map_of (players room) (ownerId proj) = None"
      and "inFlight now (advanced proj)"
      and "\<exists>e \<in> set (players room). collides (advanced proj) (snd e)"
  shows "(\<exists>pid p.
            (pid, p) \<in> set (players room) \<and> collides (advanced proj) p
          \<and> tickProjectile now (projId, proj) (room, hits, ex)
              = (room\<lparr>projectiles := AList.update projId (advanced proj) (projectiles room)\<rparr>,
                 hits @ [hitRecord projId (advanced proj) pid], ex @ [projId]))
       \<and> (map_of (rooms m) roomId = Some room \<and> state room = playing
            \<and> projectiles room = [(projId, proj)] \<longrightarrow>
          (\<exists>pid p.
             (pid, p) \<in> set (players room) \<and> collides (advanced proj) p
           \<and> tick m roomId now
               = ([hitRecord projId (advanced proj) pid],
                  putRoom m roomId (tickTimer now (room\<lparr>projectiles := []\<rparr>)))))"
proof -
  let ?room1 = "room\<lparr>projectiles := AList.update projId (advanced proj) (projectiles room)\<rparr>"
  have own: "ownerId (advanced proj) = ownerId proj" by (simp add: advanced_def)
  have A: "\<exists>pid p. (pid, p) \<in> set (players room) \<and> collides (advanced proj) p
          \<and> tickProjectile now (projId, proj) (room, hs, es)
              = (?room1, hs @ [hitRecord projId (advanced proj) pid], es @ [projId])" for hs es
  proof -
    from hitLoop_ownerless [of ?room1 "advanced proj" "players room" projId hs es] assms own
    obtain pid p where "(pid, p) \<in> set (players room)" "collides (advanced proj) p"
      "hitLoop projId (advanced proj) (players room) (?room1, hs, es)
         = (?room1, hs @ [hitRecord projId (advanced proj) pid], es @ [projId])"
      by (auto simp add: absent_key)
    moreover have "tickProjectile now (projId, proj) (room, hs, es)
        = hitLoop projId (advanced proj) (players room) (?room1, hs, es)"
      using assms(2) by (simp add: tickProjectile_def inFlight_def advanced_def Let_def not_less)
    ultimately show ?thesis by auto
  qed
  have B: "\<exists>pid p. (pid, p) \<in> set (players room) \<and> collides (advanced proj) p
           \<and> tick m roomId now
               = ([hitRecord projId (advanced proj) pid],
                  putRoom m roomId (tickTimer now (room\<lparr>projectiles := []\<rparr>)))"
    if "map_of (rooms m) roomId = Some room" "state room = playing"
       "projectiles room = [(projId, proj)]"
  proof -
    from A [of "[]" "[]"] obtain pid p where
      "(pid, p) \<in> set (players room)" "collides (advanced proj) p"
      "tickProjectile now (projId, proj) (room, [], [])
         = (?room1, [hitRecord projId (advanced proj) pid], [projId])"
      by auto
    with that show ?thesis
      by (auto simp add: tick_def Let_def)
  qed
  from A [of hits ex] B show ?thesis by blast
qed

theorem ownerless_hit_witness:
  "map_of (players orphanRoom) (ownerId (shotNear 1000)) = None
   \<and> inFlight 1100 (advanced (shotNear 1000))
   \<and> collides (advanced (shotNear 1000)) playerB
   \<and> (\<exists>pid p.
         (pid, p) \<in> set (players orphanRoom) \<and> collides (advanced (shotNear 1000)) p
       \<and> tick orphanManager ''r'' 1100
           = ([hitRecord ''p'' (advanced (shotNear 1000)) pid],
              putRoom orphanManager ''r'' (tickTimer 1100 (orphanRoom\<lparr>projectiles := []\<rparr>))))"
proof -
  have h1: "map_of (players orphanRoom) (ownerId (shotNear 1000)) = None"
    by (simp add: orphanRoom_def duelRoom_def playerB_def shotNear_def)
  have h2: "inFlight 1100 (advanced (shotNear 1000))"
    by (simp add: inFlight_def advanced_def orphanRoom_def duelRoom_def playerB_def shotNear_def config_defs)
  have near: "collides (advanced (shotNear 1000)) playerB"
    by (simp add: collides_def advanced_def orphanRoom_def duelRoom_def playerB_def shotNear_def config_defs)
  have h3: "\<exists>e \<in> set (players orphanRoom). collides (advanced (shotNear 1000)) (snd e)"
    using near by (simp add: orphanRoom_def duelRoom_def)
  have h4: "map_of (rooms orphanManager) ''r'' = Some orphanRoom \<and> state orphanRoom = playing
            \<and> projectiles orphanRoom = [(''p'', shotNear 1000)]"
    by (simp add: orphanManager_def orphanRoom_def duelRoom_def)
  from ownerless_hit [OF h1 h2 h3, of "''p''" "[]" "[]" orphanManager "''r''"] h4
  have "\<exists>pid p.
         (pid, p) \<in> set (players orphanRoom) \<and> collides (advanced (shotNear 1000)) p
       \<and> tick orphanManager ''r'' 1100
           = ([hitRecord ''p'' (advanced (shotNear 1000)) pid],
              putRoom orphanManager ''r'' (tickTimer 1100 (orphanRoom\<lparr>projectiles := []\<rparr>)))"
    by blast
  with h1 h2 near show ?thesis by blast
qed

section \<open>Cooldown\<close>

lemma fire_accepted_state:
  assumes "map_of (rooms m) roomId = Some room"
      and "map_of (players room) playerId = Some player"
      and "fireProjectile m roomId playerId dx dz now jid = (Some proj, m1)"
  shows "m1 = putRoom m roomId
           (room\<lparr>players := AList.update playerId (player\<lparr>lastFireTime := now\<rparr>) (players room),
                  projectiles := AList.update jid proj (projectiles room)\<rparr>)
         \<and> state room = playing"
  using assms
  by (auto simp add: fireProjectile_def Let_def split: if_splits)

lemma fire_in_cooldown:
  assumes "map_of (rooms m) roomId = Some room"
      and "map_of (players room) playerId = Some player"
      and "now - lastFireTime player < FIRE_COOLDOWN"
  shows "fireProjectile m roomId playerId dx dz now jid = (None, m)"
  using assms by (simp add: fireProjectile_def)

text \<open>
  Claim C9 as stated (two fire intents of one player in a playing room, less than
  \<^verbatim>\<open>FIRE_COOLDOWN\<close> apart, add exactly one projectile) fails when the first of the two is
  itself refused: \<open>A\<close> has fired at time 1000; the intents at 1100 and 1200, both with a
  valid direction, are both refused and add nothing.
\<close>

theorem two_intents_in_cooldown_counterexample:
  "fireProjectile duelManager ''r'' ''A'' (JNum 1) (JNum 0) 1000 ''p0'' = (Some firstShot, firedManager)
   \<and> (1200 :: int) - 1100 < FIRE_COOLDOWN
   \<and> fireProjectile firedManager ''r'' ''A'' (JNum 1) (JNum 0) 1100 ''p1'' = (None, firedManager)
   \<and> fireProjectile firedManager ''r'' ''A'' (JNum 1) (JNum 0) 1200 ''p2'' = (None, firedManager)"
  by (simp add: fireProjectile_def putRoom_def duelManager_def duelRoom_def playerA_def playerB_def firstShot_def
      firedManager_def config_defs Let_def)

text \<open>
  Claim C9, amended. For a known player of a playing room and two fire intents whose
  timestamps differ by less than \<^verbatim>\<open>FIRE_COOLDOWN\<close>: at most one of them creates a
  projectile; when the first creates one, the second is refused and changes nothing, so
  that the room's projectiles are those from before with the one new entry; and the first
  does create one when its direction is finite with magnitude at least 0.01 and the
  cooldown since the player's \<^verbatim>\<open>lastFireTime\<close> has elapsed.
\<close>

theorem cooldown_one_projectile:
  assumes "map_of (rooms m) roomId = Some room"
      and "state room = playing"
      and "map_of (players room) playerId = Some player"
      and "now2 - now1 < FIRE_COOLDOWN"
      and "fireProjectile m roomId playerId dx1 dz1 now1 id1 = (r1, m1)"
      and "fireProjectile m1 roomId playerId dx2 dz2 now2 id2 = (r2, m2)"
  shows "(r1 = None \<or> r2 = None)
       \<and> (\<forall>proj. r1 = Some proj \<longrightarrow>
             r2 = None \<and> m2 = m1
           \<and> (\<exists>room1. map_of (rooms m1) roomId = Some room1
                 \<and> projectiles room1 = AList.update id1 proj (projectiles room)))
       \<and> (typeofNumber dx1 \<and> isFinite dx1 \<and> typeofNumber dz1 \<and> isFinite dz1
            \<and> FIRE_COOLDOWN \<le> now1 - lastFireTime player
            \<and> 0.01 \<le> sqrt (num dx1 * num dx1 + num dz1 * num dz1)
          \<longrightarrow> (\<exists>proj. r1 = Some proj))"
proof -
  have second: "r2 = None \<and> m2 = m1
           \<and> (\<exists>room1. map_of (rooms m1) roomId = Some room1
                 \<and> projectiles room1 = AList.update id1 proj (projectiles room))"
    if "r1 = Some proj" for proj
  proof -
    let ?room1 = "room\<lparr>players := AList.update playerId (player\<lparr>lastFireTime := now1\<rparr>) (players room),
                  projectiles := AList.update id1 proj (projectiles room)\<rparr>"
    from fire_accepted_state [OF assms(1) assms(3)] assms(5) that
    have m1: "m1 = putRoom m roomId ?room1" by blast
    then have l1: "map_of (rooms m1) roomId = Some ?room1"
      by (simp add: putRoom_def update_conv')
    have l2: "map_of (players ?room1) playerId = Some (player\<lparr>lastFireTime := now1\<rparr>)"
      by (simp add: update_conv')
    from fire_in_cooldown [OF l1 l2, of now2 dx2 dz2 id2] assms(4) assms(6)
    have "r2 = None \<and> m2 = m1" by simp
    with l1 show ?thesis by simp
  qed
  have first: "\<exists>proj. r1 = Some proj"
    if "typeofNumber dx1 \<and> isFinite dx1 \<and> typeofNumber dz1 \<and> isFinite dz1
            \<and> FIRE_COOLDOWN \<le> now1 - lastFireTime player
            \<and> 0.01 \<le> sqrt (num dx1 * num dx1 + num dz1 * num dz1)"
    using that assms(1,2,3,5)
    by (auto simp add: fireProjectile_def Let_def not_less split: if_splits)
  from second first show ?thesis by (cases r1) auto
qed

theorem cooldown_one_projectile_witness:
  "map_of (rooms duelManager) ''r'' = Some duelRoom
   \<and> state duelRoom = playing
   \<and> map_of (players duelRoom) ''A'' = Some playerA
   \<and> (1100 :: int) - 1000 < FIRE_COOLDOWN
   \<and> fireProjectile duelManager ''r'' ''A'' (JNum 1) (JNum 0) 1000 ''p0'' = (Some firstShot, firedManager)
   \<and> fireProjectile firedManager ''r'' ''A'' (JNum 0) (JNum 1) 1100 ''p1'' = (None, firedManager)
   \<and> (\<exists>room1. map_of (rooms firedManager) ''r'' = Some room1
         \<and> projectiles room1 = AList.update ''p0'' firstShot (projectiles duelRoom))"
proof -
  have h1: "map_of (rooms duelManager) ''r'' = Some duelRoom"
    by (simp add: duelManager_def)
  have h2: "state duelRoom = playing"
    by (simp add: duelRoom_def)
  have h3: "map_of (players duelRoom) ''A'' = Some playerA"
    by (simp add: duelRoom_def)
  have h4: "(1100 :: int) - 1000 < FIRE_COOLDOWN"
    by (simp add: FIRE_COOLDOWN_def)
  have h5: "fireProjectile duelManager ''r'' ''A'' (JNum 1) (JNum 0) 1000 ''p0''
              = (Some firstShot, firedManager)"
    by (simp add: fireProjectile_def putRoom_def duelManager_def duelRoom_def playerA_def playerB_def firstShot_def
      firedManager_def config_defs Let_def)
  obtain r2 m2 where h6:
    "fireProjectile firedManager ''r'' ''A'' (JNum 0) (JNum 1) 1100 ''p1'' = (r2, m2)"
    by (cases "fireProjectile firedManager ''r'' ''A'' (JNum 0) (JNum 1) 1100 ''p1''")
  from cooldown_one_projectile [OF h1 h2 h3 h4 h5 h6]
  have "r2 = None \<and> m2 = firedManager
        \<and> (\<exists>room1. map_of (rooms firedManager) ''r'' = Some room1
              \<and> projectiles room1 = AList.update ''p0'' firstShot (projectiles duelRoom))"
    by blast
  with h1 h2 h3 h4 h5 h6 show ?thesis by simp
qed

section \<open>Projectiles across phase changes\<close>

lemma targeted_by_positions:
  "list_ex (\<lambda>e. fst e \<noteq> k \<and> collides proj (snd e)) ps
     = list_ex (\<lambda>t. fst t \<noteq> k \<and>
          sqrt ((j_x proj - fst (snd t)) * (j_x proj - fst (snd t))
              + (j_z proj - snd (snd t)) * (j_z proj - snd (snd t)))
            < PLAYER_RADIUS + PROJECTILE_RADIUS) (positions ps)"
  by (induction ps) (simp_all add: positions_def collides_def)

lemma survives_positions:
  "positions ps = positions ps' \<Longrightarrow> survives now ps proj = survives now ps' proj"
  by (simp add: survives_def targeted_by_positions)

lemma positions_update_score:
  "map_of al k = Some s \<Longrightarrow> positions (AList.update k (s\<lparr>score := c\<rparr>) al) = positions al"
  by (induction al) (auto simp add: positions_def)

lemma hitLoop_effect:
  "hitLoop projId proj ps (room, hits, ex) = (room', hits', ex') \<Longrightarrow>
     projectiles room' = projectiles room
   \<and> positions (players room') = positions (players room)
   \<and> ex' = (if list_ex (\<lambda>e. fst e \<noteq> ownerId proj \<and> collides proj (snd e)) ps
            then ex @ [projId] else ex)"
proof (induction projId proj ps "(room, hits, ex)" arbitrary: room hits ex rule: hitLoop.induct)
  case (1 projId proj)
  then show ?case by simp
next
  case (2 projId proj pid p ps room hits ex)
  show ?case
  proof (cases "pid = ownerId proj")
    case True
    with 2 show ?thesis by simp
  next
    case other: False
    show ?thesis
    proof (cases "collides proj p")
      case True
      with other 2(3) show ?thesis
        by (auto simp add: collides_def Let_def positions_update_score split: option.splits)
    next
      case False
      with other 2 show ?thesis by (simp add: collides_def Let_def)
    qed
  qed
qed

lemma tickProjectile_effect:
  assumes "tickProjectile now (k, proj) (room, hits, ex) = (room', hits', ex')"
  shows "projectiles room' = AList.update k (advanced proj) (projectiles room)
       \<and> positions (players room') = positions (players room)
       \<and> ex' = (if survives now (players room) (advanced proj) then ex else ex @ [k])"
proof (cases "inFlight now (advanced proj)")
  case False
  with assms show ?thesis
    by (auto simp add: tickProjectile_def inFlight_def advanced_def survives_def Let_def
        split: if_splits)
next
  case True
  let ?room1 = "room\<lparr>projectiles := AList.update k (advanced proj) (projectiles room)\<rparr>"
  from True assms have "hitLoop k (advanced proj) (players room) (?room1, hits, ex) = (room', hits', ex')"
    by (simp add: tickProjectile_def inFlight_def advanced_def Let_def not_less)
  from hitLoop_effect [OF this] True show ?thesis
    by (simp add: survives_def)
qed

lemma update_middle:
  "k \<notin> fst ` set pre \<Longrightarrow> AList.update k v (pre @ (k, w) # post) = pre @ (k, v) # post"
  by (induction pre) auto

lemma fold_tickProjectile_effect:
  assumes "fold (tickProjectile now) js (room, hits, ex) = (room', hits', ex')"
      and "projectiles room = map (apsnd advanced) pre @ js"
      and "distinct (map fst (pre @ js))"
  shows "projectiles room' = map (apsnd advanced) (pre @ js)
       \<and> positions (players room') = positions (players room)
       \<and> ex' = ex @ map fst (filter (\<lambda>e. \<not> survives now (players room) (advanced (snd e))) js)"
  using assms
proof (induction js arbitrary: room hits ex pre)
  case Nil
  then show ?case by simp
next
  case (Cons e js)
  obtain k proj where e: "e = (k, proj)" by (cases e)
  obtain room1 hits1 ex1 where step:
    "tickProjectile now (k, proj) (room, hits, ex) = (room1, hits1, ex1)"
    by (cases "tickProjectile now (k, proj) (room, hits, ex)")
  note eff = tickProjectile_effect [OF step]
  have fresh: "k \<notin> fst ` set (map (apsnd advanced) pre)"
    using Cons.prems(3) e by (auto simp add: image_iff)
  have p1: "projectiles room1 = map (apsnd advanced) (pre @ [(k, proj)]) @ js"
    using eff Cons.prems(2) e update_middle [OF fresh, of "advanced proj" proj js]
    by simp
  have d1: "distinct (map fst ((pre @ [(k, proj)]) @ js))"
    using Cons.prems(3) e by simp
  have f1: "fold (tickProjectile now) js (room1, hits1, ex1) = (room', hits', ex')"
    using Cons.prems(1) e step by simp
  from Cons.IH [OF f1 p1 d1] eff e show ?case
    by (simp add: survives_positions [of "players room1" "players room"])
qed

lemma fold_delete_filter:
  "fold AList.delete ks al = filter (\<lambda>e. fst e \<notin> set ks) al"
  by (induction ks arbitrary: al) (auto simp add: AList.delete_eq case_prod_beta intro: filter_cong)

lemma filter_by_removed_keys:
  assumes "distinct (map fst al)"
  shows "filter (\<lambda>e. fst e \<notin> set (map fst (filter Q al))) (map (apsnd f) al)
           = map (apsnd f) (filter (\<lambda>e. \<not> Q e) al)"
proof -
  have key: "(fst e \<notin> set (map fst (filter Q al))) = (\<not> Q e)" if "e \<in> set al" for e
  proof (cases e)
    case (Pair a b)
    have uniq: "b' = b" if "(a, b') \<in> set al" for b'
      using assms that \<open>e \<in> set al\<close> Pair by (metis eq_key_imp_eq_value)
    show ?thesis
    proof
      assume n: "fst e \<notin> set (map fst (filter Q al))"
      show "\<not> Q e"
      proof
        assume "Q e"
        with \<open>e \<in> set al\<close> have "e \<in> set (filter Q al)" by simp
        then have "fst e \<in> fst ` set (filter Q al)" by (rule imageI)
        with n show False by simp
      qed
    next
      assume nq: "\<not> Q e"
      show "fst e \<notin> set (map fst (filter Q al))"
      proof
        assume "fst e \<in> set (map fst (filter Q al))"
        with Pair obtain b' where "(a, b') \<in> set al" "Q (a, b')" by auto
        with uniq nq Pair show False by auto
      qed
    qed
  qed
  have "filter (\<lambda>e. fst e \<notin> set (map fst (filter Q al))) al = filter (\<lambda>e. \<not> Q e) al"
    by (rule filter_cong [OF refl]) (rule key)
  then show ?thesis
    by (simp add: filter_map comp_def)
qed

lemma tickTimer_projectiles: "projectiles (tickTimer now r) = projectiles r"
  by (simp add: tickTimer_def Let_def split: option.splits)

lemma tick_projectiles:
  assumes "map_of (rooms m) roomId = Some room"
      and "state room = playing"
      and "distinct (map fst (projectiles room))"
  shows "\<exists>room'. map_of (rooms (snd (tick m roomId now))) roomId = Some room'
           \<and> projectiles room'
               = map (apsnd advanced)
                   (filter (\<lambda>e. survives now (players room) (advanced (snd e))) (projectiles room))"
proof -
  obtain room1 hits ex where f:
    "fold (tickProjectile now) (projectiles room) (room, [], []) = (room1, hits, ex)"
    by (cases "fold (tickProjectile now) (projectiles room) (room, [], [])")
  from fold_tickProjectile_effect [OF f, of "[]"] assms(3)
  have p1: "projectiles room1 = map (apsnd advanced) (projectiles room)"
    and ex: "ex = map fst (filter (\<lambda>e. \<not> survives now (players room) (advanced (snd e)))
                             (projectiles room))"
    by simp_all
  have "fold AList.delete ex (projectiles room1)
          = map (apsnd advanced)
              (filter (\<lambda>e. survives now (players room) (advanced (snd e))) (projectiles room))"
    unfolding fold_delete_filter p1 ex
    using filter_by_removed_keys [OF assms(3),
        of "\<lambda>e. \<not> survives now (players room) (advanced (snd e))" advanced]
    by simp
  with assms(1,2) f show ?thesis
    by (simp add: tick_def Let_def putRoom_def update_conv' tickTimer_projectiles)
qed

lemma tick_twoShot:
  "tick twoShotManager ''r'' 61000
     = ([hitRecord ''p'' (advanced (shotNear 60000)) ''B''], wonManager)"
  by (simp add: tick_def tickProjectile_def tickTimer_def putRoom_def hitRecord_def advanced_def
      twoShotRoom_def twoShotManager_def wonRoom_def wonManager_def duelRoom_def
      playerA_def playerB_def shotNear_def shotFar_def config_defs sqrt_less_iff_sq power2_eq_square)

text \<open>
  Claim C1 as stated (after every operation that moves the phase away from \<open>playing\<close>,
  the step that ends the match included, the projectiles map is empty) fails for the
  step: \<open>A\<close> has nine points and two shots in the air; on the step at 61000 the near one
  hits \<open>B\<close>, the phase becomes \<open>ended\<close>, and the far one is still stored.
\<close>

theorem tick_end_keeps_projectiles_counterexample:
  "map_of (rooms twoShotManager) ''r'' = Some twoShotRoom
   \<and> state twoShotRoom = playing
   \<and> snd (tick twoShotManager ''r'' 61000) = wonManager
   \<and> map_of (rooms wonManager) ''r'' = Some wonRoom
   \<and> state wonRoom = ended
   \<and> projectiles wonRoom = [(''q'', advanced (shotFar 60400))]"
  using tick_twoShot by (simp add: twoShotRoom_def twoShotManager_def wonRoom_def wonManager_def duelRoom_def)

text \<open>
  Claim C1, amended. The projectiles map is emptied by a departure that leaves a player
  behind while the phase is \<open>playing\<close> or \<open>countdown\<close> (the phase becomes \<open>waiting\<close>) and
  by an accepted rematch (\<open>ended\<close> to \<open>waiting\<close>). A step of a playing room, whether or
  not it ends the match, removes exactly the projectiles that expire on it (out of bounds,
  past their lifetime, or hitting a player other than their owner) and keeps the others,
  advanced by one step, in their order.
\<close>

theorem projectiles_on_leaving_play:
  assumes "map_of (rooms m) roomId = Some room"
  shows "((state room = playing \<or> state room = countdown)
            \<and> AList.delete playerId (players room) \<noteq> []
          \<longrightarrow> (\<exists>room'. map_of (rooms (removePlayer m roomId playerId)) roomId = Some room'
                 \<and> state room' = waiting \<and> projectiles room' = []))
       \<and> (state room = ended
          \<longrightarrow> (\<exists>m' room'. handleRematch m roomId = (True, m')
                 \<and> map_of (rooms m') roomId = Some room'
                 \<and> state room' = waiting \<and> projectiles room' = []))
       \<and> (state room = playing \<and> distinct (map fst (projectiles room))
          \<longrightarrow> (\<exists>room'. map_of (rooms (snd (tick m roomId now))) roomId = Some room'
                 \<and> projectiles room'
                     = map (apsnd advanced)
                         (filter (\<lambda>e. survives now (players room) (advanced (snd e)))
                            (projectiles room))))"
proof -
  have leave: "\<exists>room'. map_of (rooms (removePlayer m roomId playerId)) roomId = Some room'
                 \<and> state room' = waiting \<and> projectiles room' = []"
    if "state room = playing \<or> state room = countdown"
       "AList.delete playerId (players room) \<noteq> []"
    using assms that
    by (auto simp add: removePlayer_def putRoom_def update_conv' Let_def)
  have rematch: "\<exists>m' room'. handleRematch m roomId = (True, m')
                 \<and> map_of (rooms m') roomId = Some room'
                 \<and> state room' = waiting \<and> projectiles room' = []"
    if "state room = ended"
    using assms that
    by (simp add: handleRematch_def putRoom_def update_conv')
  from leave rematch tick_projectiles [OF assms, of now] show ?thesis by blast
qed

theorem projectiles_on_leaving_play_witness:
  "map_of (rooms twoShotManager) ''r'' = Some twoShotRoom
   \<and> state twoShotRoom = playing
   \<and> AList.delete ''A'' (players twoShotRoom) \<noteq> []
   \<and> distinct (map fst (projectiles twoShotRoom))
   \<and> (\<exists>room'. map_of (rooms (removePlayer twoShotManager ''r'' ''A'')) ''r'' = Some room'
          \<and> state room' = waiting \<and> projectiles room' = [])
   \<and> (\<exists>room'. map_of (rooms (snd (tick twoShotManager ''r'' 61000))) ''r'' = Some room'
          \<and> projectiles room' = [(''q'', advanced (shotFar 60400))])
   \<and> map_of (rooms wonManager) ''r'' = Some wonRoom
   \<and> state wonRoom = ended
   \<and> (\<exists>m' room'. handleRematch wonManager ''r'' = (True, m')
          \<and> map_of (rooms m') ''r'' = Some room'
          \<and> state room' = waiting \<and> projectiles room' = [])"
proof -
  have h1: "map_of (rooms twoShotManager) ''r'' = Some twoShotRoom"
    by (simp add: twoShotManager_def)
  have h2: "state twoShotRoom = playing"
    by (simp add: twoShotRoom_def duelRoom_def)
  have h3: "AList.delete ''A'' (players twoShotRoom) \<noteq> []"
    by (simp add: twoShotRoom_def duelRoom_def)
  have h4: "distinct (map fst (projectiles twoShotRoom))"
    by (simp add: twoShotRoom_def)
  have h5: "map_of (rooms wonManager) ''r'' = Some wonRoom"
    by (simp add: wonManager_def)
  have h6: "state wonRoom = ended"
    by (simp add: wonRoom_def)
  note play = projectiles_on_leaving_play [OF h1, of "''A''" 61000]
  note over = projectiles_on_leaving_play [OF h5, of "''A''" 61000]
  from play h2 h3 have a: "\<exists>room'. map_of (rooms (removePlayer twoShotManager ''r'' ''A'')) ''r'' = Some room'
          \<and> state room' = waiting \<and> projectiles room' = []"
    by blast
  have kept: "map (apsnd advanced)
                (filter (\<lambda>e. survives 61000 (players twoShotRoom) (advanced (snd e)))
                   (projectiles twoShotRoom)) = [(''q'', advanced (shotFar 60400))]"
    by (simp add: survives_def inFlight_def collides_sq advanced_def twoShotRoom_def duelRoom_def
        playerA_def playerB_def shotNear_def shotFar_def config_defs power2_eq_square)
  from play h2 h4 have "\<exists>room'. map_of (rooms (snd (tick twoShotManager ''r'' 61000))) ''r'' = Some room'
          \<and> projectiles room'
              = map (apsnd advanced)
                  (filter (\<lambda>e. survives 61000 (players twoShotRoom) (advanced (snd e)))
                     (projectiles twoShotRoom))"
    by blast
  then have b: "\<exists>room'. map_of (rooms (snd (tick twoShotManager ''r'' 61000))) ''r'' = Some room'
          \<and> projectiles room' = [(''q'', advanced (shotFar 60400))]"
    unfolding kept .
  from over h6 have c: "\<exists>m' room'. handleRematch wonManager ''r'' = (True, m')
          \<and> map_of (rooms m') ''r'' = Some room'
          \<and> state room' = waiting \<and> projectiles room' = []"
    by blast
  from h1 h2 h3 h4 a b h5 h6 c show ?thesis by blast
qed

end
